theory Spec2Isabelle
  imports Main
begin

section \<open>The environment of \<open>convert_bmp.py\<close>\<close>

text \<open>
  The script is a straight line of statements at module level. Everything it touches is
  made explicit: the command line \<open>sys.argv\<close> is a list of strings, the file system maps
  a path to the bytes stored there, standard output is a text stream with an encoding,
  and the process ends with an exit code.

  An interrupt delivered from outside the process, a missing library and an output
  device that refuses every write are not part of the model.
\<close>

type_synonym path = string

type_synonym filesystem = "path \<Rightarrow> string option"

text \<open>
  An exception: its class name and the text that \<open>str(e)\<close> yields. The handler
  \<open>except Exception as e\<close> matches every class.
\<close>

datatype py_exception = PyException (exc_type: string) (exc_str: string)

text \<open>
  The imaging library (\<open>from PIL import Image\<close>) is not part of the program: it is a
  parameter. \<open>Image_open\<close> reads the file system and returns an image or raises;
  \<open>Image_save\<close> returns normally or raises, and in both cases leaves a file system behind.
  \<open>img_format\<close> and \<open>img_pixels\<close> observe an image: the container format it was read
  from and its decoded pixel content.
\<close>

record ('img, 'px) pil =
  Image_open :: "filesystem \<Rightarrow> path \<Rightarrow> py_exception + 'img"
  Image_save :: "filesystem \<Rightarrow> 'img \<Rightarrow> path \<Rightarrow> string \<Rightarrow> (py_exception + unit) \<times> filesystem"
  img_format :: "'img \<Rightarrow> string"
  img_pixels :: "'img \<Rightarrow> 'px"

text \<open>
  The encoding of \<open>sys.stdout\<close>, a parameter as well: which texts with a character
  outside ASCII it can encode, and the \<open>UnicodeEncodeError\<close> that a write raises
  for a text it cannot.
\<close>

record stdout_codec =
  can_encode :: "string \<Rightarrow> bool"
  encode_error :: "string \<Rightarrow> py_exception"

text \<open>The library calls a run makes, in order, with the arguments it passes.\<close>

datatype lib_call = Open_call path | Save_call path string

text \<open>
  What a run has done so far: the texts that calls of \<open>print\<close> have written, in
  order, the file system, and the library calls. An outcome adds the exit code.
\<close>

record effects =
  printed :: "string list"
  fs :: filesystem
  calls :: "lib_call list"

record outcome = effects +
  exit_code :: nat

section \<open>The program\<close>

definition newline :: char where
  "newline = CHR 0x0A"

definition is_ascii :: "string \<Rightarrow> bool" where
  "is_ascii s = list_all (\<lambda>c. \<not> digit7 c) s"

text \<open>Every encoding of a working standard output encodes a text of ASCII characters.\<close>

definition writable :: "stdout_codec \<Rightarrow> string \<Rightarrow> bool" where
  "writable out s = (is_ascii s \<or> can_encode out s)"

text \<open>
  \<open>print(s)\<close>: the text is encoded as a whole, so either it is written, a newline
  after it, or the call raises and nothing is written.
\<close>

definition print :: "stdout_codec \<Rightarrow> string \<Rightarrow> string list \<Rightarrow> py_exception + string list" where
  "print out s written = (if writable out s then Inr (written @ [s]) else Inl (encode_error out s))"

definition usage :: string where
  "usage = ''Usage: python convert_bmp.py input.bmp output.png''"

text \<open>
  The body of the \<open>try\<close> (lines 12 to 14): open, save, print. It ends normally or
  with the exception that reaches the handler, raised by the open, by the save or by
  the \<open>print\<close>.
\<close>

definition try_block ::
  "stdout_codec \<Rightarrow> ('img, 'px) pil \<Rightarrow> filesystem \<Rightarrow> path \<Rightarrow> path \<Rightarrow> (py_exception + unit) \<times> effects" where
  "try_block out lib w input_path output_path =
     (case Image_open lib w input_path of
        Inl e \<Rightarrow> (Inl e, \<lparr>printed = [], fs = w, calls = [Open_call input_path]\<rparr>)
      | Inr img \<Rightarrow>
          (case Image_save lib w img output_path ''PNG'' of
             (Inl e, w') \<Rightarrow>
               (Inl e, \<lparr>printed = [], fs = w',
                        calls = [Open_call input_path, Save_call output_path ''PNG'']\<rparr>)
           | (Inr _, w') \<Rightarrow>
               (case print out (''Converted '' @ input_path @ '' to '' @ output_path) [] of
                  Inl e \<Rightarrow>
                    (Inl e, \<lparr>printed = [], fs = w',
                             calls = [Open_call input_path, Save_call output_path ''PNG'']\<rparr>)
                | Inr written \<Rightarrow>
                    (Inr (), \<lparr>printed = written, fs = w',
                              calls = [Open_call input_path, Save_call output_path ''PNG'']\<rparr>))))"

text \<open>
  The handler (lines 15 to 17): print the error line, then \<open>sys.exit(1)\<close>. When this
  \<open>print\<close> raises, nothing catches it: the interpreter ends with exit code 1 as well.
\<close>

definition except_handler :: "stdout_codec \<Rightarrow> py_exception \<Rightarrow> effects \<Rightarrow> outcome" where
  "except_handler out e st =
     (case print out (''Error: '' @ exc_str e) (printed st) of
        Inl e' \<Rightarrow> \<lparr>printed = printed st, fs = fs st, calls = calls st, exit_code = 1\<rparr>
      | Inr written \<Rightarrow> \<lparr>printed = written, fs = fs st, calls = calls st, exit_code = 1\<rparr>)"

text \<open>
  The whole script. The first \<open>sys.exit(1)\<close> is outside the \<open>try\<close>; falling off the
  end of the module is exit code 0.
\<close>

definition main :: "stdout_codec \<Rightarrow> ('img, 'px) pil \<Rightarrow> filesystem \<Rightarrow> string list \<Rightarrow> outcome" where
  "main out lib w argv =
    (if length argv \<noteq> 3 then
       (case print out usage [] of
          Inl e \<Rightarrow> \<lparr>printed = [], fs = w, calls = [], exit_code = 1\<rparr>
        | Inr written \<Rightarrow> \<lparr>printed = written, fs = w, calls = [], exit_code = 1\<rparr>)
     else
       let input_path = argv ! 1;
           output_path = argv ! 2
       in
         (case try_block out lib w input_path output_path of
            (Inl e, st) \<Rightarrow> except_handler out e st
          | (Inr _, st) \<Rightarrow> \<lparr>printed = printed st, fs = fs st, calls = calls st, exit_code = 0\<rparr>))"

section \<open>Observations on a run\<close>

text \<open>The characters on standard output: each text written, a newline after it.\<close>

definition stdout :: "'a effects_scheme \<Rightarrow> string" where
  "stdout st = concat (map (\<lambda>s. s @ [newline]) (printed st))"

text \<open>The number of lines on standard output: one per newline character written.\<close>

definition line_count :: "string \<Rightarrow> nat" where
  "line_count s = count_list s newline"

text \<open>What decoding the file at a path yields, if it decodes at all.\<close>

definition decoded :: "('img, 'px) pil \<Rightarrow> filesystem \<Rightarrow> path \<Rightarrow> 'px option" where
  "decoded lib w p = (case Image_open lib w p of Inl e \<Rightarrow> None | Inr img \<Rightarrow> Some (img_pixels lib img))"

definition is_save :: "lib_call \<Rightarrow> bool" where
  "is_save c = (case c of Open_call p \<Rightarrow> False | Save_call p f \<Rightarrow> True)"

section \<open>What the program relies on from the library\<close>

text \<open>Opening a path at which the file system holds nothing raises.\<close>

definition open_missing_raises :: "('img, 'px) pil \<Rightarrow> bool" where
  "open_missing_raises lib = (\<forall>w p. w p = None \<longrightarrow> (\<exists>e. Image_open lib w p = Inl e))"

text \<open>The pixels that opening a path yields depend on the bytes at that path only.\<close>

definition open_by_content :: "('img, 'px) pil \<Rightarrow> bool" where
  "open_by_content lib = (\<forall>w w' p. w p = w' p \<longrightarrow> decoded lib w p = decoded lib w' p)"

text \<open>
  A save in format PNG that returns normally leaves, at the path it was given, a file
  that opens as a PNG image with the pixels of the image saved.
\<close>

definition png_roundtrip :: "('img, 'px) pil \<Rightarrow> bool" where
  "png_roundtrip lib =
     (\<forall>w img p w'. Image_save lib w img p ''PNG'' = (Inr (), w') \<longrightarrow>
        (\<exists>img'. Image_open lib w' p = Inr img' \<and> img_format lib img' = ''PNG''
                \<and> img_pixels lib img' = img_pixels lib img))"

section \<open>A small library and two encodings to run the program on\<close>

text \<open>
  An image is its format name and its pixel bytes. A file decodes when it starts with
  \<open>BM\<close> (a bitmap) or with \<open>.PNG\<close>; saving to the empty path fails, as does an unknown
  format name.
\<close>

definition stub_open :: "filesystem \<Rightarrow> path \<Rightarrow> py_exception + (string \<times> string)" where
  "stub_open w p =
     (case w p of
        None \<Rightarrow> Inl (PyException ''FileNotFoundError'' (''[Errno 2] No such file or directory: '' @ p))
      | Some b \<Rightarrow>
          if take 2 b = ''BM'' then Inr (''BMP'', drop 2 b)
          else if take 4 b = ''.PNG'' then Inr (''PNG'', drop 4 b)
          else Inl (PyException ''UnidentifiedImageError'' (''cannot identify image file '' @ p)))"

definition stub_save ::
  "filesystem \<Rightarrow> (string \<times> string) \<Rightarrow> path \<Rightarrow> string \<Rightarrow> (py_exception + unit) \<times> filesystem" where
  "stub_save w img p fmt =
     (if p = [] then (Inl (PyException ''FileNotFoundError'' ''[Errno 2] No such file or directory''), w)
      else if fmt = ''PNG'' then (Inr (), w(p \<mapsto> ''.PNG'' @ snd img))
      else (Inl (PyException ''KeyError'' fmt), w))"

definition stub_lib :: "(string \<times> string, string) pil" where
  "stub_lib = \<lparr>Image_open = stub_open, Image_save = stub_save, img_format = fst, img_pixels = snd\<rparr>"

definition sample_fs :: filesystem where
  "sample_fs = Map.empty(''sample.bmp'' \<mapsto> ''BMrgb'', ''notes.txt'' \<mapsto> ''hello'')"

text \<open>
  A second library: it refuses to open \<open>notes.txt\<close> and otherwise behaves as the
  first one.
\<close>

definition picky_lib :: "(string \<times> string, string) pil" where
  "picky_lib = stub_lib\<lparr>Image_open := (\<lambda>w p.
       if p = ''notes.txt'' then Inl (PyException ''PermissionError'' (''[Errno 13] Permission denied: '' @ p))
       else stub_open w p)\<rparr>"

text \<open>An encoding that takes every text, and one that takes ASCII only.\<close>

definition wide_stdout :: stdout_codec where
  "wide_stdout = \<lparr>can_encode = (\<lambda>s. True),
                  encode_error = (\<lambda>s. PyException ''UnicodeEncodeError'' ''codec cannot encode character'')\<rparr>"

definition ascii_stdout :: stdout_codec where
  "ascii_stdout = \<lparr>can_encode = (\<lambda>s. False),
                   encode_error = (\<lambda>s. PyException ''UnicodeEncodeError''
                                        ''ascii codec cannot encode character: ordinal not in range(128)'')\<rparr>"

section \<open>The ways a run ends\<close>

lemma usage_ascii: "is_ascii usage"
  by (simp add: usage_def is_ascii_def)

lemma main_usage:
  "length argv \<noteq> 3 \<Longrightarrow>
   main out lib w argv = \<lparr>printed = [usage], fs = w, calls = [], exit_code = 1\<rparr>"
  by (simp add: main_def print_def writable_def usage_ascii)

lemma try_open_fails:
  "Image_open lib w a = Inl e \<Longrightarrow>
   try_block out lib w a b = (Inl e, \<lparr>printed = [], fs = w, calls = [Open_call a]\<rparr>)"
  by (simp add: try_block_def)

lemma try_save_fails:
  "Image_open lib w a = Inr img \<Longrightarrow> Image_save lib w img b ''PNG'' = (Inl e, w') \<Longrightarrow>
   try_block out lib w a b
     = (Inl e, \<lparr>printed = [], fs = w', calls = [Open_call a, Save_call b ''PNG'']\<rparr>)"
  by (simp add: try_block_def)

lemma try_print_fails:
  "Image_open lib w a = Inr img \<Longrightarrow> Image_save lib w img b ''PNG'' = (Inr u, w') \<Longrightarrow>
   \<not> writable out (''Converted '' @ a @ '' to '' @ b) \<Longrightarrow>
   try_block out lib w a b
     = (Inl (encode_error out (''Converted '' @ a @ '' to '' @ b)),
        \<lparr>printed = [], fs = w', calls = [Open_call a, Save_call b ''PNG'']\<rparr>)"
  by (simp add: try_block_def print_def)

lemma try_converts:
  "Image_open lib w a = Inr img \<Longrightarrow> Image_save lib w img b ''PNG'' = (Inr u, w') \<Longrightarrow>
   writable out (''Converted '' @ a @ '' to '' @ b) \<Longrightarrow>
   try_block out lib w a b
     = (Inr (), \<lparr>printed = [''Converted '' @ a @ '' to '' @ b], fs = w',
                 calls = [Open_call a, Save_call b ''PNG'']\<rparr>)"
  by (simp add: try_block_def print_def)

lemma main_two_args:
  "main out lib w [prog, a, b] =
     (case try_block out lib w a b of
        (Inl e, st) \<Rightarrow> except_handler out e st
      | (Inr u, st) \<Rightarrow> \<lparr>printed = printed st, fs = fs st, calls = calls st, exit_code = 0\<rparr>)"
  by (simp add: main_def Let_def)

lemma handler_result:
  "except_handler out e \<lparr>printed = [], fs = w, calls = cs\<rparr> =
     \<lparr>printed = (if writable out (''Error: '' @ exc_str e) then [''Error: '' @ exc_str e] else []),
      fs = w, calls = cs, exit_code = 1\<rparr>"
  by (simp add: except_handler_def print_def)

lemma exit_0_iff:
  "exit_code (main out lib w [prog, a, b]) = 0 \<longleftrightarrow>
     (\<exists>img w'. Image_open lib w a = Inr img \<and> Image_save lib w img b ''PNG'' = (Inr (), w')
        \<and> writable out (''Converted '' @ a @ '' to '' @ b))"
  by (auto simp add: main_two_args try_block_def print_def except_handler_def
        split: sum.splits prod.splits)

text \<open>
  The image is handed to the save and to nothing else: the open comes first, the save,
  when it is reached, is the last library call of the run.
\<close>

lemma calls_open_then_save:
  "calls (main out lib w argv) = []
   \<or> calls (main out lib w argv) = [Open_call (argv ! 1)]
   \<or> calls (main out lib w argv) = [Open_call (argv ! 1), Save_call (argv ! 2) ''PNG'']"
  by (simp add: main_def Let_def try_block_def print_def except_handler_def
        split: sum.splits prod.splits)

lemma main_open_fails:
  "Image_open lib w a = Inl e \<Longrightarrow>
   main out lib w [prog, a, b] =
     \<lparr>printed = (if writable out (''Error: '' @ exc_str e) then [''Error: '' @ exc_str e] else []),
      fs = w, calls = [Open_call a], exit_code = 1\<rparr>"
  by (simp add: main_two_args try_open_fails handler_result)

lemma main_save_fails:
  "Image_open lib w a = Inr img \<Longrightarrow> Image_save lib w img b ''PNG'' = (Inl e, w') \<Longrightarrow>
   main out lib w [prog, a, b] =
     \<lparr>printed = (if writable out (''Error: '' @ exc_str e) then [''Error: '' @ exc_str e] else []),
      fs = w', calls = [Open_call a, Save_call b ''PNG''], exit_code = 1\<rparr>"
  by (simp add: main_two_args try_save_fails handler_result)

lemma main_print_fails:
  "Image_open lib w a = Inr img \<Longrightarrow> Image_save lib w img b ''PNG'' = (Inr u, w') \<Longrightarrow>
   \<not> writable out (''Converted '' @ a @ '' to '' @ b) \<Longrightarrow>
   e = encode_error out (''Converted '' @ a @ '' to '' @ b) \<Longrightarrow>
   main out lib w [prog, a, b] =
     \<lparr>printed = (if writable out (''Error: '' @ exc_str e) then [''Error: '' @ exc_str e] else []),
      fs = w', calls = [Open_call a, Save_call b ''PNG''], exit_code = 1\<rparr>"
  by (simp add: main_two_args try_print_fails handler_result)

lemma main_converts:
  "Image_open lib w a = Inr img \<Longrightarrow> Image_save lib w img b ''PNG'' = (Inr u, w') \<Longrightarrow>
   writable out (''Converted '' @ a @ '' to '' @ b) \<Longrightarrow>
   main out lib w [prog, a, b] =
     \<lparr>printed = [''Converted '' @ a @ '' to '' @ b], fs = w',
      calls = [Open_call a, Save_call b ''PNG''], exit_code = 0\<rparr>"
  by (simp add: main_two_args try_converts)

lemma printed_at_most_one: "length (printed (main out lib w argv)) \<le> 1"
  by (auto simp add: main_def Let_def try_block_def print_def except_handler_def
        split: sum.splits prod.splits)

lemma usage_one_line: "line_count (usage @ [newline]) = 1"
  by (simp add: line_count_def usage_def newline_def)

text \<open>After a failure: what is on standard output, given the text of the exception.\<close>

lemma stdout_after_failure:
  assumes "printed st = (if writable out (''Error: '' @ d) then [''Error: '' @ d] else [])"
  shows "(writable out (''Error: '' @ d) \<longrightarrow>
            stdout st = ''Error: '' @ d @ [newline]
            \<and> (newline \<notin> set d \<longrightarrow> line_count (stdout st) = 1))
         \<and> (\<not> writable out (''Error: '' @ d) \<longrightarrow> stdout st = [])"
  using assms by (simp add: stdout_def line_count_def newline_def)

lemma run_decodes:
  assumes "png_roundtrip lib" and "exit_code (main out lib w [prog, a, b]) = 0"
  shows "decoded lib (fs (main out lib w [prog, a, b])) b = decoded lib w a
         \<and> decoded lib w a \<noteq> None
         \<and> (\<exists>img'. Image_open lib (fs (main out lib w [prog, a, b])) b = Inr img'
                \<and> img_format lib img' = ''PNG'')
         \<and> stdout (main out lib w [prog, a, b]) = ''Converted '' @ a @ '' to '' @ b @ [newline]"
proof -
  from assms(2) obtain img w' where op: "Image_open lib w a = Inr img"
    and sv: "Image_save lib w img b ''PNG'' = (Inr (), w')"
    and wr: "writable out (''Converted '' @ a @ '' to '' @ b)"
    unfolding exit_0_iff by blast
  note m = main_converts [OF op sv wr, of prog]
  from assms(1) sv obtain img' where "Image_open lib w' b = Inr img'"
    "img_format lib img' = ''PNG''" "img_pixels lib img' = img_pixels lib img"
    unfolding png_roundtrip_def by blast
  with op m show ?thesis by (simp add: decoded_def stdout_def)
qed

lemma main_after_open:
  assumes "Image_open lib w a = Inr img"
  shows "calls (main out lib w [prog, a, b]) = [Open_call a, Save_call b ''PNG'']
         \<and> fs (main out lib w [prog, a, b]) = snd (Image_save lib w img b ''PNG'')"
  using assms
  by (auto simp add: main_two_args try_block_def print_def except_handler_def
        split: sum.splits prod.splits)

subsection \<open>The small library and the two encodings at work\<close>

lemma stub_open_missing: "open_missing_raises stub_lib"
  by (simp add: open_missing_raises_def stub_lib_def stub_open_def)

lemma stub_by_content: "open_by_content stub_lib"
  by (simp add: open_by_content_def decoded_def stub_lib_def stub_open_def)

lemma stub_roundtrip: "png_roundtrip stub_lib"
  by (auto simp add: png_roundtrip_def stub_lib_def stub_open_def stub_save_def split: if_splits)

lemma stub_open_sample: "Image_open stub_lib sample_fs ''sample.bmp'' = Inr (''BMP'', ''rgb'')"
  by (simp add: stub_lib_def stub_open_def sample_fs_def)

lemma stub_open_absent:
  "sample_fs p = None \<Longrightarrow>
   Image_open stub_lib sample_fs p
     = Inl (PyException ''FileNotFoundError'' (''[Errno 2] No such file or directory: '' @ p))"
  by (simp add: stub_lib_def stub_open_def)

lemma stub_open_notes:
  "Image_open stub_lib sample_fs ''notes.txt''
     = Inl (PyException ''UnidentifiedImageError'' ''cannot identify image file notes.txt'')"
  by (simp add: stub_lib_def stub_open_def sample_fs_def)

lemma stub_save_sample:
  "p \<noteq> [] \<Longrightarrow> Image_save stub_lib w img p ''PNG'' = (Inr (), w(p \<mapsto> ''.PNG'' @ snd img))"
  by (simp add: stub_lib_def stub_save_def)

lemma stub_save_empty:
  "Image_save stub_lib w img [] ''PNG''
     = (Inl (PyException ''FileNotFoundError'' ''[Errno 2] No such file or directory''), w)"
  by (simp add: stub_lib_def stub_save_def)

lemma writable_wide: "writable wide_stdout s"
  by (simp add: writable_def wide_stdout_def)

lemma writable_ascii_stdout: "writable ascii_stdout s = is_ascii s"
  by (simp add: writable_def ascii_stdout_def)

lemma ascii_stdout_error:
  "encode_error ascii_stdout s
     = PyException ''UnicodeEncodeError'' ''ascii codec cannot encode character: ordinal not in range(128)''"
  by (simp add: ascii_stdout_def)

text \<open>The sample bitmap converted to a path that the stream can write, and to one it cannot.\<close>

lemma stub_run_ok:
  "p \<noteq> [] \<Longrightarrow> writable out (''Converted sample.bmp to '' @ p) \<Longrightarrow>
   main out stub_lib sample_fs [prog, ''sample.bmp'', p] =
     \<lparr>printed = [''Converted sample.bmp to '' @ p], fs = sample_fs(p \<mapsto> ''.PNGrgb''),
      calls = [Open_call ''sample.bmp'', Save_call p ''PNG''], exit_code = 0\<rparr>"
  using main_converts [OF stub_open_sample stub_save_sample, of p out prog] by simp

lemma stub_run_unencodable:
  "p \<noteq> [] \<Longrightarrow> \<not> is_ascii (''Converted sample.bmp to '' @ p) \<Longrightarrow>
   main ascii_stdout stub_lib sample_fs [prog, ''sample.bmp'', p] =
     \<lparr>printed = [''Error: ascii codec cannot encode character: ordinal not in range(128)''],
      fs = sample_fs(p \<mapsto> ''.PNGrgb''),
      calls = [Open_call ''sample.bmp'', Save_call p ''PNG''], exit_code = 1\<rparr>"
  using main_print_fails [OF stub_open_sample stub_save_sample, of p ascii_stdout _ prog]
  by (simp add: writable_ascii_stdout ascii_stdout_error is_ascii_def)

lemma stub_run_absent:
  "sample_fs p = None \<Longrightarrow>
   main out stub_lib sample_fs [prog, p, q] =
     \<lparr>printed = (if writable out (''Error: [Errno 2] No such file or directory: '' @ p)
                  then [''Error: [Errno 2] No such file or directory: '' @ p] else []),
      fs = sample_fs, calls = [Open_call p], exit_code = 1\<rparr>"
  using main_open_fails [OF stub_open_absent, of p out prog q] by simp

lemma picky_open_sample:
  "Image_open picky_lib sample_fs ''sample.bmp'' = Image_open stub_lib sample_fs ''sample.bmp''"
  by (simp add: picky_lib_def stub_lib_def)

lemma picky_save: "Image_save picky_lib w img p f = Image_save stub_lib w img p f"
  by (simp add: picky_lib_def stub_lib_def)

lemma decoded_sample: "decoded stub_lib sample_fs ''sample.bmp'' = Some ''rgb''"
  by (simp add: decoded_def stub_open_sample) (simp add: stub_lib_def)

lemma run1:
  "main ascii_stdout stub_lib sample_fs [''convert_bmp.py'', ''sample.bmp'', ''sample.png''] =
     \<lparr>printed = [''Converted sample.bmp to sample.png''],
      fs = sample_fs(''sample.png'' \<mapsto> ''.PNGrgb''),
      calls = [Open_call ''sample.bmp'', Save_call ''sample.png'' ''PNG''], exit_code = 0\<rparr>"
  using stub_run_ok [of "''sample.png''" ascii_stdout "''convert_bmp.py''"]
  by (simp add: writable_ascii_stdout is_ascii_def)

lemma run2:
  "exit_code (main ascii_stdout stub_lib (sample_fs(''sample.png'' \<mapsto> ''.PNGrgb''))
      [''convert_bmp.py'', ''sample.bmp'', ''sample.png'']) = 0"
proof -
  have op: "Image_open stub_lib (sample_fs(''sample.png'' \<mapsto> ''.PNGrgb'')) ''sample.bmp''
      = Inr (''BMP'', ''rgb'')"
    by (simp add: stub_lib_def stub_open_def sample_fs_def)
  have sv: "Image_save stub_lib (sample_fs(''sample.png'' \<mapsto> ''.PNGrgb'')) (''BMP'', ''rgb'')
      ''sample.png'' ''PNG'' = (Inr (), sample_fs(''sample.png'' \<mapsto> ''.PNGrgb''))"
    by (simp add: stub_lib_def stub_save_def)
  have wr: "writable ascii_stdout (''Converted '' @ ''sample.bmp'' @ '' to '' @ ''sample.png'')"
    by (simp add: writable_ascii_stdout is_ascii_def)
  show ?thesis
    using main_converts [OF op sv wr, of "''convert_bmp.py''"] by simp
qed

section \<open>The specified behaviour\<close>

text \<open>
  C1. With exactly two arguments, when the decode of the input and the PNG encode to the
  output both succeed and standard output can encode the confirmation line (as it
  always can when both paths are ASCII), standard output is exactly the line
  \<open>Converted <input_path> to <output_path>\<close>, the two argument strings copied as they
  are, and the exit code is 0. The \<open>print\<close> is inside the \<open>try\<close>: when the stream
  cannot encode the line, the handler runs although the file was written.
\<close>

theorem C1_success_line:
  assumes "Image_open lib w input_path = Inr img"
    and "Image_save lib w img output_path ''PNG'' = (Inr (), w')"
    and "writable out (''Converted '' @ input_path @ '' to '' @ output_path)"
  shows "stdout (main out lib w [prog, input_path, output_path])
           = ''Converted '' @ input_path @ '' to '' @ output_path @ [newline]
         \<and> exit_code (main out lib w [prog, input_path, output_path]) = 0"
  using main_converts [OF assms, of prog] by (simp add: stdout_def)

theorem C1_success_line_witness:
  "Image_open stub_lib sample_fs ''sample.bmp'' = Inr (''BMP'', ''rgb'')
   \<and> Image_save stub_lib sample_fs (''BMP'', ''rgb'') ''sample.png'' ''PNG''
        = (Inr (), sample_fs(''sample.png'' \<mapsto> ''.PNGrgb''))
   \<and> writable ascii_stdout (''Converted '' @ ''sample.bmp'' @ '' to '' @ ''sample.png'')
   \<and> stdout (main ascii_stdout stub_lib sample_fs [''convert_bmp.py'', ''sample.bmp'', ''sample.png''])
        = ''Converted sample.bmp to sample.png'' @ [newline]
   \<and> exit_code (main ascii_stdout stub_lib sample_fs [''convert_bmp.py'', ''sample.bmp'', ''sample.png'']) = 0"
proof -
  have sv: "Image_save stub_lib sample_fs (''BMP'', ''rgb'') ''sample.png'' ''PNG''
              = (Inr (), sample_fs(''sample.png'' \<mapsto> ''.PNGrgb''))"
    by (simp add: stub_save_sample)
  have wr: "writable ascii_stdout (''Converted '' @ ''sample.bmp'' @ '' to '' @ ''sample.png'')"
    by (simp add: writable_ascii_stdout is_ascii_def)
  from C1_success_line [OF stub_open_sample sv wr, of "''convert_bmp.py''"] stub_open_sample sv wr
  show ?thesis by simp
qed

theorem C1_unencodable_counterexample:
  "Image_open stub_lib sample_fs ''sample.bmp'' = Inr (''BMP'', ''rgb'')
   \<and> fst (Image_save stub_lib sample_fs (''BMP'', ''rgb'') (''out'' @ [CHR 0xFF] @ ''.png'') ''PNG'') = Inr ()
   \<and> stdout (main ascii_stdout stub_lib sample_fs
        [''convert_bmp.py'', ''sample.bmp'', ''out'' @ [CHR 0xFF] @ ''.png''])
      = ''Error: ascii codec cannot encode character: ordinal not in range(128)'' @ [newline]
   \<and> exit_code (main ascii_stdout stub_lib sample_fs
        [''convert_bmp.py'', ''sample.bmp'', ''out'' @ [CHR 0xFF] @ ''.png'']) = 1"
  using stub_run_unencodable [of "''out'' @ [CHR 0xFF] @ ''.png''" "''convert_bmp.py''"]
  by (simp add: stub_open_sample stub_save_sample is_ascii_def stdout_def)

text \<open>
  C2. When the number of arguments after the program name is not two, standard output is
  the usage message, the exit code is 1, and no library call is made: the file system is
  left as it was and neither path is opened or saved.
\<close>

theorem C2_usage:
  assumes "length args \<noteq> 2"
  shows "stdout (main out lib w (prog # args)) = usage @ [newline]
         \<and> exit_code (main out lib w (prog # args)) = 1
         \<and> calls (main out lib w (prog # args)) = []
         \<and> fs (main out lib w (prog # args)) = w"
  using assms by (simp add: main_usage stdout_def)

theorem C2_usage_witness:
  "length ([] :: string list) \<noteq> 2
   \<and> stdout (main ascii_stdout stub_lib sample_fs [''convert_bmp.py''])
       = ''Usage: python convert_bmp.py input.bmp output.png'' @ [newline]
   \<and> exit_code (main ascii_stdout stub_lib sample_fs [''convert_bmp.py'']) = 1
   \<and> calls (main ascii_stdout stub_lib sample_fs [''convert_bmp.py'']) = []
   \<and> fs (main ascii_stdout stub_lib sample_fs [''convert_bmp.py'']) = sample_fs
   \<and> length [''in.bmp''] \<noteq> 2
   \<and> stdout (main ascii_stdout stub_lib sample_fs [''convert_bmp.py'', ''in.bmp''])
       = ''Usage: python convert_bmp.py input.bmp output.png'' @ [newline]
   \<and> exit_code (main ascii_stdout stub_lib sample_fs [''convert_bmp.py'', ''in.bmp'']) = 1
   \<and> calls (main ascii_stdout stub_lib sample_fs [''convert_bmp.py'', ''in.bmp'']) = []
   \<and> length [''in.bmp'', ''out.png'', ''extra''] \<noteq> 2
   \<and> stdout (main ascii_stdout stub_lib sample_fs [''convert_bmp.py'', ''in.bmp'', ''out.png'', ''extra''])
       = ''Usage: python convert_bmp.py input.bmp output.png'' @ [newline]
   \<and> exit_code (main ascii_stdout stub_lib sample_fs [''convert_bmp.py'', ''in.bmp'', ''out.png'', ''extra'']) = 1
   \<and> calls (main ascii_stdout stub_lib sample_fs [''convert_bmp.py'', ''in.bmp'', ''out.png'', ''extra'']) = []"
  using C2_usage [of "[]" ascii_stdout stub_lib sample_fs "''convert_bmp.py''"]
        C2_usage [of "[''in.bmp'']" ascii_stdout stub_lib sample_fs "''convert_bmp.py''"]
        C2_usage [of "[''in.bmp'', ''out.png'', ''extra'']" ascii_stdout stub_lib sample_fs "''convert_bmp.py''"]
  by (simp add: usage_def)

text \<open>
  C3. With exactly two arguments, an exception raised by the open or by the save, of
  whatever class, is handled the same way and the exit code is 1. When standard output
  can encode it, what is printed is \<open>Error: <description>\<close> with the text of the
  exception unchanged, a newline after it: one line when the description holds no
  newline. When standard output cannot encode it, nothing is printed.
\<close>

theorem C3_error_line:
  assumes "Image_open lib w input_path = Inl e
           \<or> (\<exists>img w'. Image_open lib w input_path = Inr img
                  \<and> Image_save lib w img output_path ''PNG'' = (Inl e, w'))"
  shows "exit_code (main out lib w [prog, input_path, output_path]) = 1
         \<and> (writable out (''Error: '' @ exc_str e) \<longrightarrow>
              stdout (main out lib w [prog, input_path, output_path]) = ''Error: '' @ exc_str e @ [newline]
              \<and> (newline \<notin> set (exc_str e) \<longrightarrow>
                   line_count (stdout (main out lib w [prog, input_path, output_path])) = 1))
         \<and> (\<not> writable out (''Error: '' @ exc_str e) \<longrightarrow>
              stdout (main out lib w [prog, input_path, output_path]) = [])"
proof -
  let ?r = "main out lib w [prog, input_path, output_path]"
  from assms have p: "printed ?r
      = (if writable out (''Error: '' @ exc_str e) then [''Error: '' @ exc_str e] else [])"
    and x: "exit_code ?r = 1"
    by (auto simp add: main_open_fails main_save_fails)
  from stdout_after_failure [OF p] x show ?thesis by blast
qed

theorem C3_error_line_witness:
  "Image_open stub_lib sample_fs ''notes.txt''
     = Inl (PyException ''UnidentifiedImageError'' ''cannot identify image file notes.txt'')
   \<and> writable ascii_stdout (''Error: '' @ ''cannot identify image file notes.txt'')
   \<and> stdout (main ascii_stdout stub_lib sample_fs [''convert_bmp.py'', ''notes.txt'', ''out.png''])
       = ''Error: cannot identify image file notes.txt'' @ [newline]
   \<and> line_count (stdout (main ascii_stdout stub_lib sample_fs [''convert_bmp.py'', ''notes.txt'', ''out.png''])) = 1
   \<and> exit_code (main ascii_stdout stub_lib sample_fs [''convert_bmp.py'', ''notes.txt'', ''out.png'']) = 1
   \<and> Image_open stub_lib sample_fs ''sample.bmp'' = Inr (''BMP'', ''rgb'')
   \<and> Image_save stub_lib sample_fs (''BMP'', ''rgb'') '''' ''PNG''
       = (Inl (PyException ''FileNotFoundError'' ''[Errno 2] No such file or directory''), sample_fs)
   \<and> stdout (main ascii_stdout stub_lib sample_fs [''convert_bmp.py'', ''sample.bmp'', ''''])
       = ''Error: [Errno 2] No such file or directory'' @ [newline]
   \<and> exit_code (main ascii_stdout stub_lib sample_fs [''convert_bmp.py'', ''sample.bmp'', '''']) = 1"
proof -
  let ?e1 = "PyException ''UnidentifiedImageError'' ''cannot identify image file notes.txt''"
  let ?e2 = "PyException ''FileNotFoundError'' ''[Errno 2] No such file or directory''"
  have a: "Image_open stub_lib sample_fs ''notes.txt'' = Inl ?e1
           \<or> (\<exists>img w'. Image_open stub_lib sample_fs ''notes.txt'' = Inr img
                  \<and> Image_save stub_lib sample_fs img ''out.png'' ''PNG'' = (Inl ?e1, w'))"
    using stub_open_notes by simp
  have b: "Image_open stub_lib sample_fs ''sample.bmp'' = Inl ?e2
           \<or> (\<exists>img w'. Image_open stub_lib sample_fs ''sample.bmp'' = Inr img
                  \<and> Image_save stub_lib sample_fs img '''' ''PNG'' = (Inl ?e2, w'))"
    using stub_open_sample stub_save_empty by simp
  have w1: "writable ascii_stdout (''Error: '' @ ''cannot identify image file notes.txt'')"
    by (simp add: writable_ascii_stdout is_ascii_def)
  have w2: "writable ascii_stdout (''Error: '' @ ''[Errno 2] No such file or directory'')"
    by (simp add: writable_ascii_stdout is_ascii_def)
  have n1: "newline \<notin> set ''cannot identify image file notes.txt''"
    by (simp add: newline_def)
  from C3_error_line [OF a, of ascii_stdout "''convert_bmp.py''"]
       C3_error_line [OF b, of ascii_stdout "''convert_bmp.py''"]
       w1 w2 n1 stub_open_notes stub_open_sample stub_save_empty
  show ?thesis by (simp add: line_count_def newline_def)
qed

theorem C3_unencodable_counterexample:
  "Image_open stub_lib sample_fs (''caf'' @ [CHR 0xE9] @ ''.bmp'')
     = Inl (PyException ''FileNotFoundError''
              (''[Errno 2] No such file or directory: '' @ ''caf'' @ [CHR 0xE9] @ ''.bmp''))
   \<and> stdout (main ascii_stdout stub_lib sample_fs
        [''convert_bmp.py'', ''caf'' @ [CHR 0xE9] @ ''.bmp'', ''out.png'']) = []
   \<and> exit_code (main ascii_stdout stub_lib sample_fs
        [''convert_bmp.py'', ''caf'' @ [CHR 0xE9] @ ''.bmp'', ''out.png'']) = 1"
proof -
  have n: "sample_fs (''caf'' @ [CHR 0xE9] @ ''.bmp'') = None"
    by (simp add: sample_fs_def)
  from stub_run_absent [OF n, of ascii_stdout "''convert_bmp.py''" "''out.png''"]
       stub_open_absent [OF n]
  show ?thesis by (simp add: writable_ascii_stdout is_ascii_def stdout_def)
qed

text \<open>
  C4. With exactly two arguments and an input path at which the file system holds
  nothing (the library raising on such a path), the exit code is 1, the save is never
  called and the file system, the output path included, is as it was. Standard output
  is the \<open>Error: \<close> line of the exception when the stream can encode it, and empty
  when it cannot.
\<close>

theorem C4_missing_input:
  assumes "open_missing_raises lib" and "w input_path = None"
  shows "\<exists>e. Image_open lib w input_path = Inl e
           \<and> (writable out (''Error: '' @ exc_str e) \<longrightarrow>
                stdout (main out lib w [prog, input_path, output_path]) = ''Error: '' @ exc_str e @ [newline])
           \<and> (\<not> writable out (''Error: '' @ exc_str e) \<longrightarrow>
                stdout (main out lib w [prog, input_path, output_path]) = [])
           \<and> exit_code (main out lib w [prog, input_path, output_path]) = 1
           \<and> filter is_save (calls (main out lib w [prog, input_path, output_path])) = []
           \<and> fs (main out lib w [prog, input_path, output_path]) = w"
proof -
  from assms obtain e where e: "Image_open lib w input_path = Inl e"
    unfolding open_missing_raises_def by blast
  have "(writable out (''Error: '' @ exc_str e) \<longrightarrow>
                stdout (main out lib w [prog, input_path, output_path]) = ''Error: '' @ exc_str e @ [newline])
           \<and> (\<not> writable out (''Error: '' @ exc_str e) \<longrightarrow>
                stdout (main out lib w [prog, input_path, output_path]) = [])
           \<and> exit_code (main out lib w [prog, input_path, output_path]) = 1
           \<and> filter is_save (calls (main out lib w [prog, input_path, output_path])) = []
           \<and> fs (main out lib w [prog, input_path, output_path]) = w"
    by (simp add: main_open_fails [OF e] stdout_def is_save_def)
  with e show ?thesis by blast
qed

theorem C4_missing_input_witness:
  "open_missing_raises stub_lib \<and> sample_fs ''absent.bmp'' = None
   \<and> stdout (main ascii_stdout stub_lib sample_fs [''convert_bmp.py'', ''absent.bmp'', ''out.png''])
       = ''Error: [Errno 2] No such file or directory: absent.bmp'' @ [newline]
   \<and> exit_code (main ascii_stdout stub_lib sample_fs [''convert_bmp.py'', ''absent.bmp'', ''out.png'']) = 1
   \<and> filter is_save (calls (main ascii_stdout stub_lib sample_fs [''convert_bmp.py'', ''absent.bmp'', ''out.png''])) = []
   \<and> fs (main ascii_stdout stub_lib sample_fs [''convert_bmp.py'', ''absent.bmp'', ''out.png'']) ''out.png'' = None"
proof -
  have a: "sample_fs ''absent.bmp'' = None"
    by (simp add: sample_fs_def)
  have o: "sample_fs ''out.png'' = None"
    by (simp add: sample_fs_def)
  have m: "stdout (main ascii_stdout stub_lib sample_fs [''convert_bmp.py'', ''absent.bmp'', ''out.png''])
       = ''Error: [Errno 2] No such file or directory: absent.bmp'' @ [newline]"
    using stub_run_absent [OF a, of ascii_stdout "''convert_bmp.py''" "''out.png''"]
    by (simp add: writable_ascii_stdout is_ascii_def stdout_def)
  from C4_missing_input [of stub_lib sample_fs "''absent.bmp''" ascii_stdout "''convert_bmp.py''" "''out.png''",
         OF stub_open_missing a]
       stub_open_missing a o m
  show ?thesis by auto
qed

theorem C4_unencodable_counterexample:
  "sample_fs (''na'' @ [CHR 0xEF] @ ''ve.bmp'') = None
   \<and> stdout (main ascii_stdout stub_lib sample_fs
        [''convert_bmp.py'', ''na'' @ [CHR 0xEF] @ ''ve.bmp'', ''naive.png'']) = []
   \<and> exit_code (main ascii_stdout stub_lib sample_fs
        [''convert_bmp.py'', ''na'' @ [CHR 0xEF] @ ''ve.bmp'', ''naive.png'']) = 1"
proof -
  have n: "sample_fs (''na'' @ [CHR 0xEF] @ ''ve.bmp'') = None"
    by (simp add: sample_fs_def)
  from stub_run_absent [OF n, of ascii_stdout "''convert_bmp.py''" "''naive.png''"] n
  show ?thesis by (simp add: writable_ascii_stdout is_ascii_def stdout_def)
qed

text \<open>
  C5. Every run writes at most one message, each followed by one newline. With a wrong
  argument count it is the usage line, one line. With two arguments it is the
  \<open>Converted\<close> line when open, save and its \<open>print\<close> succeed, one line when neither
  path holds a newline; otherwise the exception that reaches the handler (from the
  open, the save or that \<open>print\<close>) gives \<open>Error: <description>\<close>, one line when the
  description holds no newline, or nothing at all when standard output cannot encode
  that line. An output path with a newline in it gives two lines.
\<close>

theorem C5_one_message:
  "length (printed (main out lib w argv)) \<le> 1
   \<and> (length argv \<noteq> 3 \<longrightarrow>
        stdout (main out lib w argv) = usage @ [newline]
        \<and> line_count (stdout (main out lib w argv)) = 1)
   \<and> ((\<exists>img w'. Image_open lib w a = Inr img \<and> Image_save lib w img b ''PNG'' = (Inr (), w'))
        \<and> writable out (''Converted '' @ a @ '' to '' @ b) \<longrightarrow>
        stdout (main out lib w [prog, a, b]) = ''Converted '' @ a @ '' to '' @ b @ [newline]
        \<and> (newline \<notin> set a \<and> newline \<notin> set b \<longrightarrow>
             line_count (stdout (main out lib w [prog, a, b])) = 1))
   \<and> (Image_open lib w a = Inl e
        \<or> (\<exists>img w'. Image_open lib w a = Inr img
              \<and> (Image_save lib w img b ''PNG'' = (Inl e, w')
                  \<or> Image_save lib w img b ''PNG'' = (Inr (), w')
                     \<and> \<not> writable out (''Converted '' @ a @ '' to '' @ b)
                     \<and> e = encode_error out (''Converted '' @ a @ '' to '' @ b))) \<longrightarrow>
        (writable out (''Error: '' @ exc_str e) \<longrightarrow>
           stdout (main out lib w [prog, a, b]) = ''Error: '' @ exc_str e @ [newline]
           \<and> (newline \<notin> set (exc_str e) \<longrightarrow> line_count (stdout (main out lib w [prog, a, b])) = 1))
        \<and> (\<not> writable out (''Error: '' @ exc_str e) \<longrightarrow> stdout (main out lib w [prog, a, b]) = []))"
proof (intro conjI impI)
  show "length (printed (main out lib w argv)) \<le> 1"
    by (rule printed_at_most_one)
next
  assume "length argv \<noteq> 3"
  then show "stdout (main out lib w argv) = usage @ [newline]"
    by (simp add: main_usage stdout_def)
next
  assume "length argv \<noteq> 3"
  then show "line_count (stdout (main out lib w argv)) = 1"
    using usage_one_line by (simp add: main_usage stdout_def)
next
  assume ok: "(\<exists>img w'. Image_open lib w a = Inr img \<and> Image_save lib w img b ''PNG'' = (Inr (), w'))
        \<and> writable out (''Converted '' @ a @ '' to '' @ b)"
  then obtain img w' where "Image_open lib w a = Inr img"
    "Image_save lib w img b ''PNG'' = (Inr (), w')" "writable out (''Converted '' @ a @ '' to '' @ b)"
    by blast
  from main_converts [OF this, of prog]
  show s: "stdout (main out lib w [prog, a, b]) = ''Converted '' @ a @ '' to '' @ b @ [newline]"
    by (simp add: stdout_def)
  assume "newline \<notin> set a \<and> newline \<notin> set b"
  then show "line_count (stdout (main out lib w [prog, a, b])) = 1"
    unfolding s by (simp add: line_count_def newline_def)
next
  assume f: "Image_open lib w a = Inl e
        \<or> (\<exists>img w'. Image_open lib w a = Inr img
              \<and> (Image_save lib w img b ''PNG'' = (Inl e, w')
                  \<or> Image_save lib w img b ''PNG'' = (Inr (), w')
                     \<and> \<not> writable out (''Converted '' @ a @ '' to '' @ b)
                     \<and> e = encode_error out (''Converted '' @ a @ '' to '' @ b)))"
  then have p: "printed (main out lib w [prog, a, b])
      = (if writable out (''Error: '' @ exc_str e) then [''Error: '' @ exc_str e] else [])"
    by (auto simp add: main_open_fails main_save_fails main_print_fails)
  note r = stdout_after_failure [OF p]
  {
    assume wr: "writable out (''Error: '' @ exc_str e)"
    with r show "stdout (main out lib w [prog, a, b]) = ''Error: '' @ exc_str e @ [newline]"
      by blast
    assume "newline \<notin> set (exc_str e)"
    with r wr show "line_count (stdout (main out lib w [prog, a, b])) = 1"
      by blast
  }
  {
    assume "\<not> writable out (''Error: '' @ exc_str e)"
    with r show "stdout (main out lib w [prog, a, b]) = []"
      by blast
  }
qed

theorem C5_one_message_witness:
  "length (printed (main ascii_stdout stub_lib sample_fs [''convert_bmp.py''])) \<le> 1
   \<and> stdout (main ascii_stdout stub_lib sample_fs [''convert_bmp.py''])
       = ''Usage: python convert_bmp.py input.bmp output.png'' @ [newline]
   \<and> line_count (stdout (main ascii_stdout stub_lib sample_fs [''convert_bmp.py''])) = 1
   \<and> stdout (main ascii_stdout stub_lib sample_fs [''convert_bmp.py'', ''sample.bmp'', ''sample.png''])
       = ''Converted sample.bmp to sample.png'' @ [newline]
   \<and> line_count (stdout (main ascii_stdout stub_lib sample_fs
        [''convert_bmp.py'', ''sample.bmp'', ''sample.png''])) = 1
   \<and> stdout (main ascii_stdout stub_lib sample_fs [''convert_bmp.py'', ''notes.txt'', ''out.png''])
       = ''Error: cannot identify image file notes.txt'' @ [newline]
   \<and> line_count (stdout (main ascii_stdout stub_lib sample_fs
        [''convert_bmp.py'', ''notes.txt'', ''out.png''])) = 1"
proof -
  let ?e = "PyException ''UnidentifiedImageError'' ''cannot identify image file notes.txt''"
  have l: "length [''convert_bmp.py''] \<noteq> 3"
    by simp
  have ok: "(\<exists>img w'. Image_open stub_lib sample_fs ''sample.bmp'' = Inr img
               \<and> Image_save stub_lib sample_fs img ''sample.png'' ''PNG'' = (Inr (), w'))
            \<and> writable ascii_stdout (''Converted '' @ ''sample.bmp'' @ '' to '' @ ''sample.png'')"
    using stub_open_sample stub_save_sample [of "''sample.png''" sample_fs "(''BMP'', ''rgb'')"]
    by (simp add: writable_ascii_stdout is_ascii_def)
  have nn: "newline \<notin> set ''sample.bmp'' \<and> newline \<notin> set ''sample.png''"
    by (simp add: newline_def)
  have wr: "writable ascii_stdout (''Error: '' @ exc_str ?e)"
    by (simp add: writable_ascii_stdout is_ascii_def)
  have ne: "newline \<notin> set (exc_str ?e)"
    by (simp add: newline_def)
  note t1 = C5_one_message [of ascii_stdout stub_lib sample_fs "[''convert_bmp.py'']"
      "''sample.bmp''" "''sample.png''" "''convert_bmp.py''" ?e]
  note t2 = C5_one_message [of ascii_stdout stub_lib sample_fs "[''convert_bmp.py'']"
      "''notes.txt''" "''out.png''" "''convert_bmp.py''" ?e]
  from t1 l have a: "length (printed (main ascii_stdout stub_lib sample_fs [''convert_bmp.py''])) \<le> 1"
    and b: "stdout (main ascii_stdout stub_lib sample_fs [''convert_bmp.py'']) = usage @ [newline]"
    and c: "line_count (stdout (main ascii_stdout stub_lib sample_fs [''convert_bmp.py''])) = 1"
    by blast+
  from t1 ok nn have d: "stdout (main ascii_stdout stub_lib sample_fs [''convert_bmp.py'', ''sample.bmp'', ''sample.png''])
       = ''Converted '' @ ''sample.bmp'' @ '' to '' @ ''sample.png'' @ [newline]"
    and e: "line_count (stdout (main ascii_stdout stub_lib sample_fs
        [''convert_bmp.py'', ''sample.bmp'', ''sample.png''])) = 1"
    by blast+
  from t2 stub_open_notes wr ne
  have f: "stdout (main ascii_stdout stub_lib sample_fs [''convert_bmp.py'', ''notes.txt'', ''out.png''])
       = ''Error: '' @ exc_str ?e @ [newline]"
    and g: "line_count (stdout (main ascii_stdout stub_lib sample_fs
        [''convert_bmp.py'', ''notes.txt'', ''out.png''])) = 1"
    by blast+
  from a b c d e f g show ?thesis by (simp add: usage_def)
qed

theorem C5_newline_counterexample:
  "line_count (stdout (main ascii_stdout stub_lib sample_fs
       [''convert_bmp.py'', ''sample.bmp'', ''out'' @ [newline] @ ''.png''])) = 2"
  using stub_run_ok [of "''out'' @ [newline] @ ''.png''" ascii_stdout "''convert_bmp.py''"]
  by (simp add: writable_ascii_stdout is_ascii_def stdout_def line_count_def newline_def)

text \<open>
  C6. Two successful runs with the same two arguments, started on file systems that hold
  the same bytes at the input path, leave output files that decode to the same pixels,
  those of the input (the library decoding by content and reading back what it saved as
  PNG). Nothing is said about the bytes of the two output files.
\<close>

theorem C6_same_content:
  assumes "open_by_content lib" and "png_roundtrip lib"
    and "exit_code (main out1 lib w1 [prog1, a, b]) = 0"
    and "exit_code (main out2 lib w2 [prog2, a, b]) = 0"
    and "w1 a = w2 a"
  shows "decoded lib (fs (main out1 lib w1 [prog1, a, b])) b
           = decoded lib (fs (main out2 lib w2 [prog2, a, b])) b
         \<and> decoded lib (fs (main out1 lib w1 [prog1, a, b])) b = decoded lib w1 a
         \<and> decoded lib w1 a \<noteq> None"
proof -
  from assms(1,5) have "decoded lib w1 a = decoded lib w2 a"
    unfolding open_by_content_def by blast
  with run_decodes [OF assms(2,3)] run_decodes [OF assms(2,4)] show ?thesis by simp
qed

theorem C6_same_content_witness:
  "open_by_content stub_lib \<and> png_roundtrip stub_lib
   \<and> exit_code (main ascii_stdout stub_lib sample_fs [''convert_bmp.py'', ''sample.bmp'', ''sample.png'']) = 0
   \<and> exit_code (main ascii_stdout stub_lib
        (fs (main ascii_stdout stub_lib sample_fs [''convert_bmp.py'', ''sample.bmp'', ''sample.png'']))
        [''convert_bmp.py'', ''sample.bmp'', ''sample.png'']) = 0
   \<and> sample_fs ''sample.bmp''
       = fs (main ascii_stdout stub_lib sample_fs [''convert_bmp.py'', ''sample.bmp'', ''sample.png'']) ''sample.bmp''
   \<and> decoded stub_lib
        (fs (main ascii_stdout stub_lib sample_fs [''convert_bmp.py'', ''sample.bmp'', ''sample.png'']))
        ''sample.png''
      = decoded stub_lib
        (fs (main ascii_stdout stub_lib
           (fs (main ascii_stdout stub_lib sample_fs [''convert_bmp.py'', ''sample.bmp'', ''sample.png'']))
           [''convert_bmp.py'', ''sample.bmp'', ''sample.png'']))
        ''sample.png''
   \<and> decoded stub_lib
        (fs (main ascii_stdout stub_lib sample_fs [''convert_bmp.py'', ''sample.bmp'', ''sample.png'']))
        ''sample.png'' = Some ''rgb''"
proof -
  let ?argv = "[''convert_bmp.py'', ''sample.bmp'', ''sample.png'']"
  define w1 where "w1 = fs (main ascii_stdout stub_lib sample_fs ?argv)"
  have w1: "w1 = sample_fs(''sample.png'' \<mapsto> ''.PNGrgb'')"
    unfolding w1_def by (simp add: run1)
  have x1: "exit_code (main ascii_stdout stub_lib sample_fs ?argv) = 0"
    by (simp add: run1)
  have x2: "exit_code (main ascii_stdout stub_lib w1 ?argv) = 0"
    unfolding w1 by (rule run2)
  have same: "sample_fs ''sample.bmp'' = w1 ''sample.bmp''"
    unfolding w1 by simp
  note r = C6_same_content [where lib = stub_lib and ?w1.0 = sample_fs and ?w2.0 = w1
      and a = "''sample.bmp''" and b = "''sample.png''"
      and ?out1.0 = ascii_stdout and ?out2.0 = ascii_stdout
      and ?prog1.0 = "''convert_bmp.py''" and ?prog2.0 = "''convert_bmp.py''",
      OF stub_by_content stub_roundtrip x1 x2 same]
  from r have e: "decoded stub_lib (fs (main ascii_stdout stub_lib sample_fs ?argv)) ''sample.png''
      = decoded stub_lib (fs (main ascii_stdout stub_lib w1 ?argv)) ''sample.png''"
    by (rule conjunct1)
  from r have "decoded stub_lib (fs (main ascii_stdout stub_lib sample_fs ?argv)) ''sample.png''
      = decoded stub_lib sample_fs ''sample.bmp''"
    by blast
  then have v: "decoded stub_lib (fs (main ascii_stdout stub_lib sample_fs ?argv)) ''sample.png'' = Some ''rgb''"
    by (simp only: decoded_sample)
  from stub_by_content stub_roundtrip x1 x2 same e v
  show ?thesis unfolding w1_def by blast
qed

text \<open>
  C7. When the input at path \<open>a\<close> decodes, the save to path \<open>b\<close> returns normally and
  standard output can encode the confirmation line, the exit code is 0. Every run with
  exit code 0 has left at \<open>b\<close> a file that opens as a PNG image and decodes to the
  pixels decoded from \<open>a\<close> (the library reading back what it saved as PNG), and has
  printed \<open>Converted a to b\<close>.
\<close>

theorem C7_pixels_preserved:
  assumes "png_roundtrip lib"
  shows "(Image_open lib w a = Inr img \<and> fst (Image_save lib w img b ''PNG'') = Inr ()
            \<and> writable out (''Converted '' @ a @ '' to '' @ b) \<longrightarrow>
          exit_code (main out lib w [prog, a, b]) = 0)
         \<and> (exit_code (main out lib w [prog, a, b]) = 0 \<longrightarrow>
              decoded lib w a \<noteq> None
              \<and> decoded lib (fs (main out lib w [prog, a, b])) b = decoded lib w a
              \<and> (\<exists>img'. Image_open lib (fs (main out lib w [prog, a, b])) b = Inr img'
                     \<and> img_format lib img' = ''PNG'')
              \<and> stdout (main out lib w [prog, a, b]) = ''Converted '' @ a @ '' to '' @ b @ [newline])"
proof (intro conjI impI)
  assume h: "Image_open lib w a = Inr img \<and> fst (Image_save lib w img b ''PNG'') = Inr ()
            \<and> writable out (''Converted '' @ a @ '' to '' @ b)"
  then obtain w' where "Image_save lib w img b ''PNG'' = (Inr (), w')"
    by (cases "Image_save lib w img b ''PNG''") simp
  with h show "exit_code (main out lib w [prog, a, b]) = 0"
    unfolding exit_0_iff by blast
next
  assume x: "exit_code (main out lib w [prog, a, b]) = 0"
  note r = run_decodes [OF assms x]
  from r show "decoded lib w a \<noteq> None" by blast
  from r show "decoded lib (fs (main out lib w [prog, a, b])) b = decoded lib w a" by blast
  from r show "\<exists>img'. Image_open lib (fs (main out lib w [prog, a, b])) b = Inr img'
                     \<and> img_format lib img' = ''PNG''" by blast
  from r show "stdout (main out lib w [prog, a, b]) = ''Converted '' @ a @ '' to '' @ b @ [newline]"
    by blast
qed

theorem C7_pixels_preserved_witness:
  "png_roundtrip stub_lib
   \<and> Image_open stub_lib sample_fs ''sample.bmp'' = Inr (''BMP'', ''rgb'')
   \<and> fst (Image_save stub_lib sample_fs (''BMP'', ''rgb'') ''sample.png'' ''PNG'') = Inr ()
   \<and> writable ascii_stdout (''Converted '' @ ''sample.bmp'' @ '' to '' @ ''sample.png'')
   \<and> exit_code (main ascii_stdout stub_lib sample_fs [''convert_bmp.py'', ''sample.bmp'', ''sample.png'']) = 0
   \<and> decoded stub_lib (fs (main ascii_stdout stub_lib sample_fs
        [''convert_bmp.py'', ''sample.bmp'', ''sample.png''])) ''sample.png'' = Some ''rgb''
   \<and> decoded stub_lib sample_fs ''sample.bmp'' = Some ''rgb''
   \<and> (\<exists>img'. Image_open stub_lib (fs (main ascii_stdout stub_lib sample_fs
          [''convert_bmp.py'', ''sample.bmp'', ''sample.png''])) ''sample.png'' = Inr img'
             \<and> img_format stub_lib img' = ''PNG'')
   \<and> stdout (main ascii_stdout stub_lib sample_fs [''convert_bmp.py'', ''sample.bmp'', ''sample.png''])
        = ''Converted sample.bmp to sample.png'' @ [newline]"
proof -
  let ?r = "main ascii_stdout stub_lib sample_fs [''convert_bmp.py'', ''sample.bmp'', ''sample.png'']"
  have sv: "fst (Image_save stub_lib sample_fs (''BMP'', ''rgb'') ''sample.png'' ''PNG'') = Inr ()"
    by (simp add: stub_save_sample)
  have wr: "writable ascii_stdout (''Converted '' @ ''sample.bmp'' @ '' to '' @ ''sample.png'')"
    by (simp add: writable_ascii_stdout is_ascii_def)
  note t = C7_pixels_preserved [OF stub_roundtrip, of sample_fs "''sample.bmp''" "(''BMP'', ''rgb'')"
      "''sample.png''" ascii_stdout "''convert_bmp.py''"]
  from t stub_open_sample sv wr have x: "exit_code ?r = 0"
    by blast
  with t have d: "decoded stub_lib (fs ?r) ''sample.png'' = decoded stub_lib sample_fs ''sample.bmp''"
    and p: "\<exists>img'. Image_open stub_lib (fs ?r) ''sample.png'' = Inr img' \<and> img_format stub_lib img' = ''PNG''"
    and s: "stdout ?r = ''Converted '' @ ''sample.bmp'' @ '' to '' @ ''sample.png'' @ [newline]"
    by blast+
  from d have d': "decoded stub_lib (fs ?r) ''sample.png'' = Some ''rgb''"
    by (simp only: decoded_sample)
  from s have s': "stdout ?r = ''Converted sample.bmp to sample.png'' @ [newline]"
    by simp
  from stub_roundtrip stub_open_sample sv wr x d' decoded_sample p s'
  show ?thesis by blast
qed

theorem C7_unencodable_counterexample:
  "Image_open stub_lib sample_fs ''sample.bmp'' = Inr (''BMP'', ''rgb'')
   \<and> fst (Image_save stub_lib sample_fs (''BMP'', ''rgb'') (''caf'' @ [CHR 0xE9] @ ''.png'') ''PNG'') = Inr ()
   \<and> fs (main ascii_stdout stub_lib sample_fs
        [''convert_bmp.py'', ''sample.bmp'', ''caf'' @ [CHR 0xE9] @ ''.png''])
        (''caf'' @ [CHR 0xE9] @ ''.png'') = Some ''.PNGrgb''
   \<and> stdout (main ascii_stdout stub_lib sample_fs
        [''convert_bmp.py'', ''sample.bmp'', ''caf'' @ [CHR 0xE9] @ ''.png''])
      = ''Error: ascii codec cannot encode character: ordinal not in range(128)'' @ [newline]
   \<and> exit_code (main ascii_stdout stub_lib sample_fs
        [''convert_bmp.py'', ''sample.bmp'', ''caf'' @ [CHR 0xE9] @ ''.png'']) = 1"
  using stub_run_unencodable [of "''caf'' @ [CHR 0xE9] @ ''.png''" "''convert_bmp.py''"]
  by (simp add: stub_open_sample stub_save_sample is_ascii_def stdout_def)

text \<open>
  C9. A run that reaches the save makes exactly one save call, with the format argument
  \<open>PNG\<close> whatever the output path is, and the file system it leaves is the one that
  call returns; when the run succeeds, the file at the output path opens as PNG.
\<close>

theorem C9_format_fixed:
  assumes "Image_open lib w input_path = Inr img"
  shows "filter is_save (calls (main out lib w [prog, input_path, output_path]))
           = [Save_call output_path ''PNG'']
         \<and> fs (main out lib w [prog, input_path, output_path])
           = snd (Image_save lib w img output_path ''PNG'')
         \<and> (png_roundtrip lib \<and> exit_code (main out lib w [prog, input_path, output_path]) = 0 \<longrightarrow>
              (\<exists>img'. Image_open lib (fs (main out lib w [prog, input_path, output_path])) output_path = Inr img'
                     \<and> img_format lib img' = ''PNG''))"
proof -
  note c = main_after_open [OF assms, of out prog output_path]
  have "\<exists>img'. Image_open lib (fs (main out lib w [prog, input_path, output_path])) output_path = Inr img'
                     \<and> img_format lib img' = ''PNG''"
    if "png_roundtrip lib" and "exit_code (main out lib w [prog, input_path, output_path]) = 0"
    using run_decodes [OF that] by blast
  with c show ?thesis by (simp add: is_save_def)
qed

theorem C9_format_fixed_witness:
  "Image_open stub_lib sample_fs ''sample.bmp'' = Inr (''BMP'', ''rgb'')
   \<and> png_roundtrip stub_lib
   \<and> exit_code (main ascii_stdout stub_lib sample_fs [''convert_bmp.py'', ''sample.bmp'', ''picture.jpg'']) = 0
   \<and> filter is_save (calls (main ascii_stdout stub_lib sample_fs [''convert_bmp.py'', ''sample.bmp'', ''picture.jpg'']))
        = [Save_call ''picture.jpg'' ''PNG'']
   \<and> (\<exists>img'. Image_open stub_lib
                 (fs (main ascii_stdout stub_lib sample_fs [''convert_bmp.py'', ''sample.bmp'', ''picture.jpg'']))
                 ''picture.jpg'' = Inr img'
              \<and> img_format stub_lib img' = ''PNG'')"
proof -
  have x: "exit_code (main ascii_stdout stub_lib sample_fs [''convert_bmp.py'', ''sample.bmp'', ''picture.jpg'']) = 0"
    using stub_run_ok [of "''picture.jpg''" ascii_stdout "''convert_bmp.py''"]
    by (simp add: writable_ascii_stdout is_ascii_def)
  from C9_format_fixed [OF stub_open_sample, of ascii_stdout "''convert_bmp.py''" "''picture.jpg''"]
       stub_open_sample stub_roundtrip x
  show ?thesis by blast
qed

text \<open>
  C10. Two runs on the same arguments, the same file system and the same encoding of
  standard output, in which the library answers alike to the open of \<open>argv[1]\<close> and to
  the PNG save to \<open>argv[2]\<close>, end in the same outcome: the same standard output, exit
  code, file system and calls. With two arguments the calls are the open of
  \<open>argv[1]\<close>, then, when it returns an image, the save to \<open>argv[2]\<close> in format PNG,
  and on exit code 0 the line printed is \<open>Converted argv[1] to argv[2]\<close>, the strings
  passed as they are. The arguments and the file system alone do not fix the output: the
  same run under another encoding of standard output can print another line and exit
  with another code.
\<close>

theorem C10_same_answers_same_outcome:
  assumes "length argv = 3 \<longrightarrow> Image_open lib1 w (argv ! 1) = Image_open lib2 w (argv ! 1)"
    and "length argv = 3 \<longrightarrow>
           (\<forall>img. Image_save lib1 w img (argv ! 2) ''PNG'' = Image_save lib2 w img (argv ! 2) ''PNG'')"
  shows "main out lib1 w argv = main out lib2 w argv
         \<and> (length argv \<noteq> 3 \<longrightarrow> calls (main out lib1 w argv) = [])
         \<and> (length argv = 3 \<longrightarrow>
              calls (main out lib1 w argv)
                = Open_call (argv ! 1)
                  # (case Image_open lib1 w (argv ! 1) of
                       Inl e \<Rightarrow> [] | Inr img \<Rightarrow> [Save_call (argv ! 2) ''PNG'']))
         \<and> (exit_code (main out lib1 w argv) = 0 \<longrightarrow>
              stdout (main out lib1 w argv)
                = ''Converted '' @ argv ! 1 @ '' to '' @ argv ! 2 @ [newline])"
proof (intro conjI impI)
  show "main out lib1 w argv = main out lib2 w argv"
    using assms
    by (auto simp add: main_def Let_def try_block_def split: sum.splits prod.splits)
next
  assume "length argv \<noteq> 3"
  then show "calls (main out lib1 w argv) = []"
    by (simp add: main_usage)
next
  assume "length argv = 3"
  then show "calls (main out lib1 w argv)
                = Open_call (argv ! 1)
                  # (case Image_open lib1 w (argv ! 1) of
                       Inl e \<Rightarrow> [] | Inr img \<Rightarrow> [Save_call (argv ! 2) ''PNG''])"
    by (auto simp add: main_def Let_def try_block_def print_def except_handler_def
          split: sum.splits prod.splits)
next
  assume "exit_code (main out lib1 w argv) = 0"
  then show "stdout (main out lib1 w argv)
                = ''Converted '' @ argv ! 1 @ '' to '' @ argv ! 2 @ [newline]"
    by (auto simp add: main_def Let_def try_block_def print_def except_handler_def stdout_def
          split: sum.splits prod.splits if_splits)
qed

theorem C10_same_answers_same_outcome_witness:
  "Image_open picky_lib sample_fs ''sample.bmp'' = Image_open stub_lib sample_fs ''sample.bmp''
   \<and> Image_open picky_lib sample_fs ''notes.txt'' \<noteq> Image_open stub_lib sample_fs ''notes.txt''
   \<and> main ascii_stdout picky_lib sample_fs [''convert_bmp.py'', ''sample.bmp'', ''sample.png'']
       = main ascii_stdout stub_lib sample_fs [''convert_bmp.py'', ''sample.bmp'', ''sample.png'']
   \<and> calls (main ascii_stdout picky_lib sample_fs [''convert_bmp.py'', ''sample.bmp'', ''sample.png''])
       = [Open_call ''sample.bmp'', Save_call ''sample.png'' ''PNG'']
   \<and> exit_code (main ascii_stdout picky_lib sample_fs [''convert_bmp.py'', ''sample.bmp'', ''sample.png'']) = 0
   \<and> stdout (main ascii_stdout picky_lib sample_fs [''convert_bmp.py'', ''sample.bmp'', ''sample.png''])
       = ''Converted sample.bmp to sample.png'' @ [newline]
   \<and> main ascii_stdout picky_lib sample_fs [''convert_bmp.py''] = main ascii_stdout stub_lib sample_fs [''convert_bmp.py'']
   \<and> calls (main ascii_stdout picky_lib sample_fs [''convert_bmp.py'']) = []"
proof -
  let ?argv = "[''convert_bmp.py'', ''sample.bmp'', ''sample.png'']"
  have d: "Image_open picky_lib sample_fs ''notes.txt'' \<noteq> Image_open stub_lib sample_fs ''notes.txt''"
    by (simp add: picky_lib_def stub_lib_def stub_open_def sample_fs_def)
  have h1: "length ?argv = 3 \<longrightarrow> Image_open picky_lib sample_fs (?argv ! 1) = Image_open stub_lib sample_fs (?argv ! 1)"
    using picky_open_sample by simp
  have h2: "length ?argv = 3 \<longrightarrow>
      (\<forall>img. Image_save picky_lib sample_fs img (?argv ! 2) ''PNG'' = Image_save stub_lib sample_fs img (?argv ! 2) ''PNG'')"
    by (simp add: picky_save)
  have k1: "length [''convert_bmp.py''] = 3 \<longrightarrow>
      Image_open picky_lib sample_fs ([''convert_bmp.py''] ! 1) = Image_open stub_lib sample_fs ([''convert_bmp.py''] ! 1)"
    by simp
  have k2: "length [''convert_bmp.py''] = 3 \<longrightarrow>
      (\<forall>img. Image_save picky_lib sample_fs img ([''convert_bmp.py''] ! 2) ''PNG''
          = Image_save stub_lib sample_fs img ([''convert_bmp.py''] ! 2) ''PNG'')"
    by simp
  note t = C10_same_answers_same_outcome [OF h1 h2, of ascii_stdout]
  note u = C10_same_answers_same_outcome [OF k1 k2, of ascii_stdout]
  have l0: "length [''convert_bmp.py''] \<noteq> 3"
    by simp
  from t have eq: "main ascii_stdout picky_lib sample_fs ?argv = main ascii_stdout stub_lib sample_fs ?argv"
    by (rule conjunct1)
  have x: "exit_code (main ascii_stdout picky_lib sample_fs ?argv) = 0"
    unfolding eq by (simp add: run1)
  from t picky_open_sample stub_open_sample
  have c: "calls (main ascii_stdout picky_lib sample_fs ?argv) = [Open_call ''sample.bmp'', Save_call ''sample.png'' ''PNG'']"
    by (simp add: run1)
  from t x have "stdout (main ascii_stdout picky_lib sample_fs ?argv)
      = ''Converted '' @ ?argv ! 1 @ '' to '' @ ?argv ! 2 @ [newline]"
    by blast
  then have s: "stdout (main ascii_stdout picky_lib sample_fs ?argv)
      = ''Converted sample.bmp to sample.png'' @ [newline]"
    by simp
  from u have eq0: "main ascii_stdout picky_lib sample_fs [''convert_bmp.py''] = main ascii_stdout stub_lib sample_fs [''convert_bmp.py'']"
    and c0: "calls (main ascii_stdout picky_lib sample_fs [''convert_bmp.py'']) = []"
    using l0 by blast+
  from picky_open_sample d eq c x s eq0 c0 show ?thesis by blast
qed

theorem C10_encoding_counterexample:
  "exit_code (main wide_stdout stub_lib sample_fs
       [''convert_bmp.py'', ''sample.bmp'', ''r'' @ [CHR 0xE9] @ ''sultat.png'']) = 0
   \<and> stdout (main wide_stdout stub_lib sample_fs
       [''convert_bmp.py'', ''sample.bmp'', ''r'' @ [CHR 0xE9] @ ''sultat.png''])
      = ''Converted sample.bmp to r'' @ [CHR 0xE9] @ ''sultat.png'' @ [newline]
   \<and> exit_code (main ascii_stdout stub_lib sample_fs
       [''convert_bmp.py'', ''sample.bmp'', ''r'' @ [CHR 0xE9] @ ''sultat.png'']) = 1
   \<and> stdout (main ascii_stdout stub_lib sample_fs
       [''convert_bmp.py'', ''sample.bmp'', ''r'' @ [CHR 0xE9] @ ''sultat.png''])
      = ''Error: ascii codec cannot encode character: ordinal not in range(128)'' @ [newline]"
  using stub_run_unencodable [of "''r'' @ [CHR 0xE9] @ ''sultat.png''" "''convert_bmp.py''"]
        stub_run_ok [of "''r'' @ [CHR 0xE9] @ ''sultat.png''" wide_stdout "''convert_bmp.py''"]
  by (simp add: writable_wide is_ascii_def stdout_def)

end
